theory Spec2Isabelle
  imports Main "HOL-Library.Word"
begin

section \<open>JavaScript strings and numbers\<close>

text \<open>
  A JavaScript string is a sequence of 16-bit code units. The numbers the program computes
  with are millisecond timestamps and delays, all integers far below \<open>2^53\<close>, so a
  number is modelled as an \<open>int\<close>.
\<close>

type_synonym jschar = "16 word"
type_synonym jsstring = "jschar list"

definition lit :: "string \<Rightarrow> jsstring" where
  "lit s = map (\<lambda>c. of_char c) s"

text \<open>\<open>String(n)\<close> and template interpolation of an integer: decimal digits, a minus sign
  in front of a negative number.\<close>

fun digits :: "nat \<Rightarrow> jsstring" where
  "digits n = (if n < 10 then [of_nat (48 + n)] else digits (n div 10) @ [of_nat (48 + n mod 10)])"

declare digits.simps [simp del]

definition num_str :: "int \<Rightarrow> jsstring" where
  "num_str n = (if n < 0 then 45 # digits (nat (- n)) else digits (nat n))"

text \<open>\<open>s.split(d)\<close> for a one-character separator: at least one piece, also for the empty
  string.\<close>

fun push_front :: "'a \<Rightarrow> 'a list list \<Rightarrow> 'a list list" where
  "push_front c [] = [[c]]"
| "push_front c (p # ps) = (c # p) # ps"

fun split_on :: "'a \<Rightarrow> 'a list \<Rightarrow> 'a list list" where
  "split_on d [] = [[]]"
| "split_on d (c # cs) =
     (if c = d then [] # split_on d cs else push_front c (split_on d cs))"

text \<open>\<open>parts.join(sep)\<close>.\<close>

fun join :: "'a list \<Rightarrow> 'a list list \<Rightarrow> 'a list" where
  "join sep [] = []"
| "join sep [p] = p"
| "join sep (p # q # ps) = p @ sep @ join sep (q # ps)"

definition startsWith :: "'a list \<Rightarrow> 'a list \<Rightarrow> bool" where
  "startsWith s p = (take (length p) s = p)"

fun includes_str :: "'a list \<Rightarrow> 'a list \<Rightarrow> bool" where
  "includes_str [] p = (p = [])"
| "includes_str (c # cs) p = (startsWith (c # cs) p \<or> includes_str cs p)"

text \<open>The white space and line terminator code units that \<open>trim\<close> and \<open>parseInt\<close> skip.\<close>

definition js_whitespace :: "jschar \<Rightarrow> bool" where
  "js_whitespace c =
    (c \<in> set [9, 10, 11, 12, 13, 32, 160, 5760, 8232, 8233, 8239, 8287, 12288, 65279]
     \<or> (8192 \<le> c \<and> c \<le> 8202))"

definition trim :: "jsstring \<Rightarrow> jsstring" where
  "trim s = rev (dropWhile js_whitespace (rev (dropWhile js_whitespace s)))"

definition is_digit :: "jschar \<Rightarrow> bool" where
  "is_digit c = (48 \<le> c \<and> c \<le> 57)"

definition digit_val :: "jschar \<Rightarrow> nat" where
  "digit_val c = unat c - 48"

definition digits_val :: "jsstring \<Rightarrow> nat" where
  "digits_val ds = foldl (\<lambda>a c. 10 * a + digit_val c) 0 ds"

text \<open>
  \<open>parseInt(str, 10)\<close>: leading white space is skipped, one sign is read, then the longest
  run of decimal digits; \<open>None\<close> is \<open>NaN\<close> (no digit).
\<close>

definition parseInt :: "jsstring \<Rightarrow> int option" where
  "parseInt str =
    (let S = dropWhile js_whitespace str;
         neg = (S \<noteq> [] \<and> hd S = 45);
         S' = (if S \<noteq> [] \<and> (hd S = 43 \<or> hd S = 45) then tl S else S);
         Z = takeWhile is_digit S'
     in if Z = [] then None else Some ((if neg then - 1 else 1) * int (digits_val Z)))"

section \<open>Storage helper (utils/storage.js)\<close>

text \<open>
  The three keys of \<open>chrome.storage.local\<close> that the program reads: a key that is not
  stored is \<open>None\<close>.
\<close>

record storage =
  geminiApiKey :: "jsstring option"
  lastRequestTime :: "int option"
  retryBackoff :: "int option"


text \<open>\<open>result.lastRequestTime || null\<close>: a stored 0 is falsy and reads as \<open>null\<close>.\<close>

definition getLastRequestTime :: "storage \<Rightarrow> int option" where
  "getLastRequestTime s = (case lastRequestTime s of None \<Rightarrow> None | Some t \<Rightarrow> if t = 0 then None else Some t)"

definition setLastRequestTime :: "int \<Rightarrow> storage \<Rightarrow> storage" where
  "setLastRequestTime timestamp s = s\<lparr>lastRequestTime := Some timestamp\<rparr>"

text \<open>\<open>result.retryBackoff || 0\<close>.\<close>

definition getRetryBackoff :: "storage \<Rightarrow> int" where
  "getRetryBackoff s = (case retryBackoff s of None \<Rightarrow> 0 | Some d \<Rightarrow> if d = 0 then 0 else d)"

definition setRetryBackoff :: "int \<Rightarrow> storage \<Rightarrow> storage" where
  "setRetryBackoff delay s = s\<lparr>retryBackoff := Some delay\<rparr>"

definition clearRetryBackoff :: "storage \<Rightarrow> storage" where
  "clearRetryBackoff s = s\<lparr>retryBackoff := None\<rparr>"

section \<open>Rate limiter (utils/rate-limiter.js)\<close>

definition MIN_REQUEST_DELAY :: int where
  "MIN_REQUEST_DELAY = 4000"

definition INITIAL_BACKOFF :: int where
  "INITIAL_BACKOFF = 60000"

definition MAX_BACKOFF :: int where
  "MAX_BACKOFF = 300000"

text \<open>
  The object \<open>canMakeRequest\<close> resolves to: \<open>{ allowed: true }\<close>, or
  \<open>{ allowed: false, remainingMs, reason }\<close> with reason \<open>'backoff'\<close> or
  \<open>'rate_limit'\<close> (the minimum spacing between two requests).
\<close>

datatype reason = backoff | rate_limit

datatype gate = Allowed | Denied int reason

text \<open>\<open>null + n\<close> is \<open>n\<close> in JavaScript: a missing timestamp counts as 0 in arithmetic.\<close>

definition to_number :: "int option \<Rightarrow> int" where
  "to_number v = (case v of None \<Rightarrow> 0 | Some n \<Rightarrow> n)"

text \<open>
  The check that \<open>canMakeRequest\<close> races against its 2000 ms timer, with both storage
  reads resolving before the timer: the state read, the clock \<open>Date.now()\<close>, the
  answer and the state left behind.
\<close>

definition canMakeRequest :: "storage \<Rightarrow> int \<Rightarrow> gate \<times> storage" where
  "canMakeRequest s now =
    (let lastT = getLastRequestTime s;
         backoffDelay = getRetryBackoff s;
         backoffUntil = to_number lastT + backoffDelay
     in if backoffDelay \<noteq> 0 \<and> backoffDelay > 0 \<and> now < backoffUntil
        then (Denied (backoffUntil - now) backoff, s)
        else
          let s' = (if backoffDelay \<noteq> 0 \<and> backoffDelay > 0 then clearRetryBackoff s else s)
          in case lastT of
               None \<Rightarrow> (Allowed, s')
             | Some t \<Rightarrow>
                 if now - t < MIN_REQUEST_DELAY
                 then (Denied (MIN_REQUEST_DELAY - (now - t)) rate_limit, s')
                 else (Allowed, s'))"

definition recordRequest :: "storage \<Rightarrow> int \<Rightarrow> storage" where
  "recordRequest s now = setLastRequestTime now s"

definition recordSuccess :: "storage \<Rightarrow> storage" where
  "recordSuccess s = clearRetryBackoff s"

text \<open>\<open>!currentBackoff || currentBackoff === 0\<close> holds exactly when the number read is 0.\<close>

definition recordRateLimitError :: "storage \<Rightarrow> int \<times> storage" where
  "recordRateLimitError s =
    (let currentBackoff = getRetryBackoff s;
         newBackoff = (if currentBackoff = 0 then INITIAL_BACKOFF
                       else min (currentBackoff * 2) MAX_BACKOFF)
     in (newBackoff, setRetryBackoff newBackoff s))"

text \<open>
  \<open>N\<close> consecutive calls of \<open>recordRateLimitError\<close>, each on the state the previous
  call left: the pair is the value the last call returned (the first component of the
  argument before any call) and the state after it.
\<close>

fun recordRateLimitError_times :: "nat \<Rightarrow> int \<times> storage \<Rightarrow> int \<times> storage" where
  "recordRateLimitError_times 0 p = p"
| "recordRateLimitError_times (Suc n) p = recordRateLimitError (snd (recordRateLimitError_times n p))"

text \<open>\<open>Math.ceil(a / b)\<close> for integers with \<open>b > 0\<close>.\<close>

definition ceil_div :: "int \<Rightarrow> int \<Rightarrow> int" where
  "ceil_div a b = - ((- a) div b)"

definition formatTimeRemaining :: "int \<Rightarrow> jsstring" where
  "formatTimeRemaining ms =
    (let seconds = ceil_div ms 1000
     in if seconds < 60
        then num_str seconds @ lit '' second'' @ (if seconds \<noteq> 1 then lit ''s'' else [])
        else let minutes = ceil_div seconds 60
             in num_str minutes @ lit '' minute'' @ (if minutes \<noteq> 1 then lit ''s'' else []))"

text \<open>
  The states the rate limiter itself writes: a timestamp is a positive clock reading, a
  stored backoff is one of the four delays of the doubling sequence.
\<close>

definition valid_state :: "storage \<Rightarrow> bool" where
  "valid_state s =
    ((case lastRequestTime s of None \<Rightarrow> True | Some t \<Rightarrow> 0 < t) \<and>
     (case retryBackoff s of None \<Rightarrow> True | Some d \<Rightarrow> d \<in> set [60000, 120000, 240000, 300000]))"

section \<open>The channel between relay and controller\<close>

text \<open>
  The messages the relay posts on the port: \<open>{ type: 'chunk', text }\<close>,
  \<open>{ type: 'done' }\<close> and \<open>{ type: 'error', error }\<close>.
\<close>

datatype stream_message = Chunk jsstring | Done | Error jsstring

text \<open>
  The template literal \<open>RATE_LIMITED:${ms}:${message}\<close> that both throttle errors of
  \<open>streamGeminiResponse\<close> are built with.
\<close>

definition rate_limited :: "int \<Rightarrow> jsstring \<Rightarrow> jsstring" where
  "rate_limited ms message = lit ''RATE_LIMITED:'' @ num_str ms @ lit '':'' @ message"

section \<open>Relay: the streaming call (utils/gemini-api.js)\<close>

text \<open>
  What the platform gives the generator. \<open>fetch\<close> either rejects (a network failure, with
  the error's message) or resolves to a response: its status, the text of its body as
  \<open>response.text()\<close> resolves to it, and its body as the reader delivers it: the byte
  chunks of the successive \<open>reader.read()\<close> calls, and how the reading ends (\<open>done\<close>, or
  a rejected read with the error's message).
\<close>

type_synonym byte = "8 word"

datatype stream_end = EndOfStream | ReadError jsstring

record response =
  status :: int
  text_body :: jsstring
  body :: "byte list list"
  body_end :: stream_end

datatype fetch_result = Rejects jsstring | Resolves response

definition ok :: "response \<Rightarrow> bool" where
  "ok res = (200 \<le> status res \<and> status res \<le> 299)"

text \<open>How a run of the generator ends: it returns, or it throws an error with a message.\<close>

datatype outcome = Returned | Threw jsstring

text \<open>
  \<open>decoder.decode(value, { stream: true })\<close>. The platform's decoder consumes the bytes
  of a chunk one at a time and keeps its state (the bytes of a character that is not
  complete yet) for the next call; it is given by its step function.
\<close>

fun decode :: "('d \<Rightarrow> byte \<Rightarrow> 'd \<times> jsstring) \<Rightarrow> 'd \<Rightarrow> byte list \<Rightarrow> 'd \<times> jsstring" where
  "decode step d [] = (d, [])"
| "decode step d (b # bs) =
     (let (d1, t1) = step d b; (d2, t2) = decode step d1 bs in (d2, t1 @ t2))"

text \<open>
  The \<open>for (const line of lines)\<close> loop: the texts it yields and whether it met the end
  marker and returned from the generator. \<open>frame_text data\<close> stands for the body of the
  inner \<open>try\<close>: \<open>JSON.parse(data)\<close> followed by
  \<open>json.candidates?.[0]?.content?.parts?.[0]?.text\<close>; it is \<open>None\<close> when parsing or the
  access throws (the \<open>catch\<close> skips the frame) and when the text is missing or empty.
\<close>

fun process_lines :: "(jsstring \<Rightarrow> jsstring option) \<Rightarrow> jsstring list \<Rightarrow> jsstring list \<times> bool" where
  "process_lines frame_text [] = ([], False)"
| "process_lines frame_text (line # lines) =
     (if startsWith line (lit ''data: '')
      then (let data = trim (drop 6 line)
            in if data = lit ''[DONE]'' then ([], True)
               else (case frame_text data of
                       None \<Rightarrow> process_lines frame_text lines
                     | Some text \<Rightarrow>
                         (let (ys, fin) = process_lines frame_text lines in (text # ys, fin))))
      else process_lines frame_text lines)"

text \<open>
  The \<open>while (true)\<close> loop over the reads, from the decoder's state and the buffer: the
  texts yielded, in order, and how the generator ends (\<open>end_outcome\<close>: a read that
  reports \<open>done\<close> leaves the loop and the generator returns, a read that rejects throws).
\<close>

definition end_outcome :: "stream_end \<Rightarrow> outcome" where
  "end_outcome e = (case e of EndOfStream \<Rightarrow> Returned | ReadError m \<Rightarrow> Threw m)"

fun read_loop ::
  "('d \<Rightarrow> byte \<Rightarrow> 'd \<times> jsstring) \<Rightarrow> (jsstring \<Rightarrow> jsstring option) \<Rightarrow> 'd \<Rightarrow> jsstring \<Rightarrow>
   byte list list \<Rightarrow> stream_end \<Rightarrow> jsstring list \<times> outcome" where
  "read_loop step frame_text d buffer [] e =
     ([], end_outcome e)"
| "read_loop step frame_text d buffer (v # rest) e =
     (let (d', text) = decode step d v;
          lines = split_on 10 (buffer @ text);
          buffer' = last lines;
          (ys, fin) = process_lines frame_text (butlast lines)
      in if fin then (ys, Returned)
         else (let (zs, out) = read_loop step frame_text d' buffer' rest e in (ys @ zs, out)))"

text \<open>
  \<open>streamGeminiResponse\<close>: from the stored state, the clock at the gate and at
  \<open>recordRequest\<close>, and what \<open>fetch\<close> gives, to the texts yielded, the way the
  generator ends, the state left and whether \<open>fetch\<close> was called. \<open>error_message body\<close>
  stands for \<open>JSON.parse(errorBody).error?.message\<close>: \<open>None\<close> when parsing throws or
  the message is missing or empty.
\<close>

definition streamGeminiResponse ::
  "('d \<Rightarrow> byte \<Rightarrow> 'd \<times> jsstring) \<Rightarrow> 'd \<Rightarrow> (jsstring \<Rightarrow> jsstring option) \<Rightarrow>
   (jsstring \<Rightarrow> jsstring option) \<Rightarrow> storage \<Rightarrow> int \<Rightarrow> int \<Rightarrow> fetch_result \<Rightarrow>
   (jsstring list \<times> outcome) \<times> storage \<times> bool" where
  "streamGeminiResponse step d0 frame_text error_message s now now' upstream =
    (case canMakeRequest s now of
       (Denied remainingMs r, s1) \<Rightarrow>
         (let timeRemaining = formatTimeRemaining remainingMs;
              reason = (if r = backoff
                        then lit ''Rate limit cooldown active. Please wait '' @ timeRemaining @ lit ''.''
                        else lit ''Too many requests. Please wait '' @ timeRemaining
                             @ lit '' before trying again.'')
          in (([], Threw (rate_limited remainingMs reason)), s1, False))
     | (Allowed, s1) \<Rightarrow>
         (let s2 = recordRequest s1 now'
          in case upstream of
               Rejects m \<Rightarrow> (([], Threw m), s2, True)
             | Resolves res \<Rightarrow>
                 if \<not> ok res
                 then (let errorMsg = (case error_message (text_body res) of
                                         Some m \<Rightarrow> m
                                       | None \<Rightarrow> lit ''API error ('' @ num_str (status res) @ lit '')'')
                       in if status res = 400 then (([], Threw (lit ''INVALID_KEY'')), s2, True)
                          else if status res = 429
                          then (let (backoffMs, s3) = recordRateLimitError s2;
                                    timeRemaining = formatTimeRemaining backoffMs
                                in (([], Threw (rate_limited backoffMs
                                      (lit ''You've hit the API rate limit. Please wait ''
                                       @ timeRemaining @ lit '' and try again.''))), s3, True))
                          else (([], Threw errorMsg), s2, True))
                 else (let s3 = recordSuccess s2
                       in (read_loop step frame_text d0 [] (body res) (body_end res), s3, True))))"

text \<open>
  \<open>validateApiKey\<close> after its \<open>fetch\<close> resolved with a status that is not 2xx: the
  \<open>error\<close> field of the object it returns; \<open>detail\<close> is \<open>body.error?.message || ''\<close>.
\<close>

definition validateApiKey_error :: "int \<Rightarrow> jsstring \<Rightarrow> jsstring" where
  "validateApiKey_error st detail =
    (if st = 429 then lit ''RATE_LIMITED''
     else if st = 400 \<or> st = 403 then lit ''INVALID_KEY''
     else if detail \<noteq> [] then detail
     else lit ''API returned status '' @ num_str st)"

section \<open>Relay: the port listener (background.js)\<close>

text \<open>
  The \<open>port.onMessage\<close> listener, given what the generator yields and how it ends.
  \<open>port.postMessage\<close> throws once the other end is gone: \<open>connected\<close> is \<open>None\<close> for a
  port that stays connected, \<open>Some k\<close> for one on which exactly the next \<open>k\<close> calls
  succeed. The result is the messages posted with success, in order.
\<close>

fun port_listener :: "nat option \<Rightarrow> jsstring list \<Rightarrow> outcome \<Rightarrow> stream_message list" where
  "port_listener connected [] out =
     (if connected = Some 0 then []
      else [case out of Returned \<Rightarrow> Done | Threw m \<Rightarrow> Error m])"
| "port_listener connected (chunk # chunks) out =
     (if connected = Some 0 then []
      else Chunk chunk # port_listener (map_option (\<lambda>k. k - 1) connected) chunks out)"

text \<open>The listener on one request: the generator run on it, its output posted.\<close>

definition relay ::
  "('d \<Rightarrow> byte \<Rightarrow> 'd \<times> jsstring) \<Rightarrow> 'd \<Rightarrow> (jsstring \<Rightarrow> jsstring option) \<Rightarrow>
   (jsstring \<Rightarrow> jsstring option) \<Rightarrow> nat option \<Rightarrow> storage \<Rightarrow> int \<Rightarrow> int \<Rightarrow> fetch_result \<Rightarrow>
   stream_message list" where
  "relay step d0 frame_text error_message connected s now now' upstream =
    (case streamGeminiResponse step d0 frame_text error_message s now now' upstream of
       ((chunks, out), s', fetched) \<Rightarrow> port_listener connected chunks out)"

text \<open>
  The full decoded server response, for reference: the body decoded in one piece, cut into
  its newline-terminated lines; of the lines that start with the data marker, in order and
  up to the end marker, the text of each frame that has one.
\<close>

definition response_texts ::
  "('d \<Rightarrow> byte \<Rightarrow> 'd \<times> jsstring) \<Rightarrow> 'd \<Rightarrow> (jsstring \<Rightarrow> jsstring option) \<Rightarrow> byte list \<Rightarrow> jsstring list" where
  "response_texts step d0 frame_text bytes =
    List.map_filter frame_text
      (takeWhile (\<lambda>data. data \<noteq> lit ''[DONE]'')
        (map (\<lambda>line. trim (drop 6 line))
          (filter (\<lambda>line. startsWith line (lit ''data: ''))
            (butlast (split_on 10 (snd (decode step d0 bytes)))))))"

text \<open>The texts of the chunk messages of a stream, in order, and its terminal messages.\<close>

fun chunk_texts :: "stream_message list \<Rightarrow> jsstring list" where
  "chunk_texts [] = []"
| "chunk_texts (Chunk text # ms) = text # chunk_texts ms"
| "chunk_texts (m # ms) = chunk_texts ms"

definition is_terminal :: "stream_message \<Rightarrow> bool" where
  "is_terminal m = (case m of Chunk text \<Rightarrow> False | Done \<Rightarrow> True | Error e \<Rightarrow> True)"

section \<open>The platform's UTF-8 decoder\<close>

text \<open>
  The decoder that \<open>new TextDecoder()\<close> runs, as the Encoding Standard defines it: the
  UTF-8 decoder's handler on one byte, with replacement of malformed sequences (the byte
  that breaks a sequence is read again as the start of the next one), a leading byte order
  mark dropped, and code points written as UTF-16 code units.
\<close>

record utf8_decoder =
  code_point :: nat
  bytes_seen :: nat
  bytes_needed :: nat
  lower_boundary :: nat
  upper_boundary :: nat
  bom_seen :: bool

definition utf8_new :: utf8_decoder where
  "utf8_new = \<lparr>code_point = 0, bytes_seen = 0, bytes_needed = 0, lower_boundary = 128,
     upper_boundary = 191, bom_seen = False\<rparr>"

definition utf8_lead :: "utf8_decoder \<Rightarrow> nat \<Rightarrow> utf8_decoder \<times> nat list" where
  "utf8_lead d b =
    (if b \<le> 127 then (d, [b])
     else if 194 \<le> b \<and> b \<le> 223 then (d\<lparr>bytes_needed := 1, code_point := b mod 32\<rparr>, [])
     else if 224 \<le> b \<and> b \<le> 239
     then (d\<lparr>lower_boundary := (if b = 224 then 160 else lower_boundary d),
             upper_boundary := (if b = 237 then 159 else upper_boundary d),
             bytes_needed := 2, code_point := b mod 16\<rparr>, [])
     else if 240 \<le> b \<and> b \<le> 244
     then (d\<lparr>lower_boundary := (if b = 240 then 144 else lower_boundary d),
             upper_boundary := (if b = 244 then 143 else upper_boundary d),
             bytes_needed := 3, code_point := b mod 8\<rparr>, [])
     else (d, [65533]))"

definition utf8_handler :: "utf8_decoder \<Rightarrow> nat \<Rightarrow> utf8_decoder \<times> nat list" where
  "utf8_handler d b =
    (if bytes_needed d = 0 then utf8_lead d b
     else if b < lower_boundary d \<or> upper_boundary d < b
     then (let (d', out) = utf8_lead (d\<lparr>code_point := 0, bytes_needed := 0, bytes_seen := 0,
                                          lower_boundary := 128, upper_boundary := 191\<rparr>) b
           in (d', 65533 # out))
     else (let d1 = d\<lparr>lower_boundary := 128, upper_boundary := 191,
                        code_point := code_point d * 64 + b mod 64,
                        bytes_seen := bytes_seen d + 1\<rparr>
           in if bytes_seen d1 \<noteq> bytes_needed d1 then (d1, [])
              else (d1\<lparr>code_point := 0, bytes_needed := 0, bytes_seen := 0\<rparr>, [code_point d1])))"

definition utf16 :: "nat \<Rightarrow> jsstring" where
  "utf16 cp =
    (if cp < 65536 then [of_nat cp]
     else [of_nat (55296 + (cp - 65536) div 1024), of_nat (56320 + (cp - 65536) mod 1024)])"

fun serialize :: "utf8_decoder \<Rightarrow> nat list \<Rightarrow> utf8_decoder \<times> jsstring" where
  "serialize d [] = (d, [])"
| "serialize d (cp # cps) =
     (if \<not> bom_seen d \<and> cp = 65279 then serialize (d\<lparr>bom_seen := True\<rparr>) cps
      else (let (d', t) = serialize (d\<lparr>bom_seen := True\<rparr>) cps in (d', utf16 cp @ t)))"

definition utf8_step :: "utf8_decoder \<Rightarrow> byte \<Rightarrow> utf8_decoder \<times> jsstring" where
  "utf8_step d b = (let (d', cps) = utf8_handler d (unat b) in serialize d' cps)"

text \<open>
  The texts of the server's response stream as far as it was delivered, when the call
  reached the server and it answered 2xx; no text otherwise.
\<close>

definition served_texts ::
  "('d \<Rightarrow> byte \<Rightarrow> 'd \<times> jsstring) \<Rightarrow> 'd \<Rightarrow> (jsstring \<Rightarrow> jsstring option) \<Rightarrow> storage \<Rightarrow> int \<Rightarrow>
   fetch_result \<Rightarrow> jsstring list" where
  "served_texts step d0 frame_text s now upstream =
    (case upstream of
       Rejects m \<Rightarrow> []
     | Resolves res \<Rightarrow>
         if fst (canMakeRequest s now) = Allowed \<and> ok res
         then response_texts step d0 frame_text (concat (body res)) else [])"

text \<open>The bytes of an ASCII string, to write byte streams down.\<close>

definition ascii :: "string \<Rightarrow> byte list" where
  "ascii s = map (\<lambda>c. of_char c) s"

section \<open>Controller: error display (content.js)\<close>

text \<open>
  A call \<open>showError(message, showRetry, autoRetryMs)\<close>; the number \<open>autoRetryMs\<close> is
  \<open>None\<close> when it is \<open>NaN\<close>.
\<close>

datatype show_error = ShowError jsstring bool "int option"

text \<open>
  The \<open>catch\<close> block of \<open>runBriefrr\<close> for a run that was not aborted: from the message
  of the error the stream was rejected with to the call of \<open>showError\<close>.
\<close>

definition runBriefrr_catch :: "jsstring \<Rightarrow> show_error" where
  "runBriefrr_catch message =
    (if message = lit ''INVALID_KEY''
     then ShowError (lit ''Your API key seems invalid. Please check it in Settings.'') True (Some 0)
     else if startsWith message (lit ''RATE_LIMITED:'')
     then (let parts = split_on 58 message
           in if length parts \<ge> 3
              then (let cooldownMs = parseInt (parts ! 1);
                        message' = join (lit '':'') (drop 2 parts)
                    in ShowError message' False cooldownMs)
              else ShowError (lit ''You've hit the rate limit. Please wait a moment and try again.'')
                     True (Some 0))
     else if message = lit ''RATE_LIMITED''
     then ShowError (lit ''You've hit the rate limit. Please wait a moment and try again.'')
            True (Some 0)
     else if includes_str message (lit ''Failed to fetch'') \<or> includes_str message (lit ''NetworkError'')
     then ShowError (lit ''Couldn't connect to Gemini. Please check your internet connection.'')
            True (Some 0)
     else ShowError (lit ''The response was interrupted. '' @ message) True (Some 0))"

text \<open>
  What the content area \<open>#pb-content\<close> shows: a spinner with its label, the rendered
  accumulated text (with or without the cursor), the search hint, or the error box that
  \<open>showError\<close> writes: its message, the countdown in ms when \<open>autoRetryMs > 0\<close> (the
  interval then re-runs the current mode when the countdown has elapsed), and whether it
  has the Retry button (\<open>showRetry && autoRetryMs === 0\<close>).
\<close>

datatype view =
    Loading jsstring
  | Markdown jsstring bool
  | Info
  | ErrorBox jsstring "int option" bool

definition showError :: "show_error \<Rightarrow> view" where
  "showError call =
    (case call of ShowError message showRetry autoRetryMs \<Rightarrow>
       ErrorBox message
         (case autoRetryMs of None \<Rightarrow> None | Some ms \<Rightarrow> if ms > 0 then Some ms else None)
         (showRetry \<and> autoRetryMs = Some 0))"

section \<open>Controller: one run (content.js, runBriefrr)\<close>

datatype mode = highlights | explain | search





text \<open>
  What happens on the port while the run awaits its stream: a message of the relay
  arrives, the port is disconnected from the other side, or the run's abort signal fires
  (the drawer is closed, or a new run starts).
\<close>

datatype port_event = Message stream_message | Disconnect | Abort

datatype settlement = Resolved | Rejected jsstring

record stream_state =
  accumulated :: jsstring
  shown :: view
  aborted :: bool
  port_open :: bool
  settled :: "settlement option"

text \<open>A promise settles once: \<open>resolve\<close> and \<open>reject\<close> after that do nothing.\<close>

definition settle :: "settlement \<Rightarrow> stream_state \<Rightarrow> stream_state" where
  "settle r st = (if settled st = None then st\<lparr>settled := Some r\<rparr> else st)"

text \<open>
  The three listeners of the streaming promise. A port that this side has disconnected
  delivers nothing any more.
\<close>

definition port_step :: "stream_state \<Rightarrow> port_event \<Rightarrow> stream_state" where
  "port_step st ev =
    (case ev of
       Abort \<Rightarrow> settle Resolved (st\<lparr>aborted := True, port_open := False\<rparr>)
     | Message msg \<Rightarrow>
         if \<not> port_open st \<or> aborted st then st
         else (case msg of
                 Chunk text \<Rightarrow>
                   st\<lparr>accumulated := accumulated st @ text,
                      shown := Markdown (accumulated st @ text) True\<rparr>
               | Done \<Rightarrow>
                   settle Resolved
                     (st\<lparr>shown := (case shown st of Markdown a c \<Rightarrow> Markdown a False | v \<Rightarrow> v),
                         port_open := False\<rparr>)
               | Error e \<Rightarrow> settle (Rejected e) (st\<lparr>port_open := False\<rparr>))
     | Disconnect \<Rightarrow>
         if \<not> port_open st then st
         else if \<not> aborted st \<and> accumulated st = []
         then settle (Rejected (lit ''Connection to extension lost. Please try again.''))
                (st\<lparr>port_open := False\<rparr>)
         else settle Resolved (st\<lparr>port_open := False\<rparr>))"

text \<open>The run resumes as soon as the promise has settled; later events do not reach it.\<close>

fun await_stream :: "stream_state \<Rightarrow> port_event list \<Rightarrow> stream_state" where
  "await_stream st [] = st"
| "await_stream st (ev # evs) =
     (let st' = port_step st ev in if settled st' \<noteq> None then st' else await_stream st' evs)"

text \<open>
  How far a run has got: it returned before opening a port (after \<open>showError\<close>, with
  \<open>isStreaming = false\<close>); it is suspended on the streaming promise, which is still
  pending; the promise was resolved and the run went on to its last line
  (\<open>isStreaming = false\<close>); or the promise was rejected with the message and the
  \<open>catch\<close> block ran.
\<close>

datatype run_end = ReturnedEarly | AwaitingStream | StreamResolved | StreamRejected jsstring

text \<open>
  Step 4 of \<open>runBriefrr\<close>, from the loading view on: the stream is awaited, then the
  \<open>catch\<close> block shows the error of a rejected stream unless the run was aborted. The
  result is how the promise was settled, if it was, and what the content area shows then.
\<close>

definition stream_response :: "jsstring \<Rightarrow> port_event list \<Rightarrow> run_end \<times> view" where
  "stream_response loadingText evs =
    (let st = await_stream
                \<lparr>accumulated = [], shown = Loading loadingText, aborted = False,
                   port_open = True, settled = None\<rparr> evs
     in case settled st of
          None \<Rightarrow> (AwaitingStream, shown st)
        | Some Resolved \<Rightarrow> (StreamResolved, shown st)
        | Some (Rejected message) \<Rightarrow>
            (StreamRejected message,
             if aborted st then shown st else showError (runBriefrr_catch message)))"





section \<open>Controller: mode switching and timers (content.js)\<close>

text \<open>
  The callbacks the controller hands to \<open>setTimeout\<close> and \<open>setInterval\<close>: the debounced
  \<open>runBriefrr(newMode)\<close>, the focus of the search input, and the countdown's tick with its
  end time (it calls \<open>runBriefrr(currentMode)\<close> at the first tick at which the end time
  is reached).
\<close>

datatype callback = DebouncedRun mode | FocusSearchInput | CountdownTick int

text \<open>
  The module's variables, and of the page what they refer to: the current abort
  controller, if there is one, with the \<open>aborted\<close> flag of its signal; the page's pending
  timers with their id, time and callback (ids are positive and never reused; the time of
  a timeout is when it is due, the time of an interval is its first tick, and it ticks
  every 100 ms from then on until it is cleared); the search bar and the content area.
  Logo, title and active button are functions of \<open>currentMode\<close>.
\<close>

record controller =
  currentMode :: mode
  isStreaming :: bool
  abortController :: "bool option"
  debounceTimer :: "nat option"
  countdownInterval :: "nat option"
  timers :: "(nat \<times> int \<times> callback) list"
  timersCreated :: nat
  searchBarShown :: bool
  pb_content :: view

text \<open>\<open>setTimeout\<close> and \<open>setInterval\<close> at the time \<open>now\<close>, and \<open>clearTimeout\<close> /
  \<open>clearInterval\<close>.\<close>

definition setTimeout :: "callback \<Rightarrow> int \<Rightarrow> int \<Rightarrow> controller \<Rightarrow> nat \<times> controller" where
  "setTimeout cb delay now c =
    (let i = Suc (timersCreated c)
     in (i, c\<lparr>timers := timers c @ [(i, now + delay, cb)], timersCreated := i\<rparr>))"

definition setInterval :: "callback \<Rightarrow> int \<Rightarrow> int \<Rightarrow> controller \<Rightarrow> nat \<times> controller" where
  "setInterval cb delay now c =
    (let i = Suc (timersCreated c)
     in (i, c\<lparr>timers := timers c @ [(i, now + delay, cb)], timersCreated := i\<rparr>))"

definition clearTimeout :: "nat \<Rightarrow> controller \<Rightarrow> controller" where
  "clearTimeout i c = c\<lparr>timers := filter (\<lambda>entry. fst entry \<noteq> i) (timers c)\<rparr>"

definition updateHeader :: "mode \<Rightarrow> controller \<Rightarrow> controller" where
  "updateHeader m c = c\<lparr>currentMode := m\<rparr>"

text \<open>\<open>switchMode(newMode)\<close> at the time \<open>now\<close>.\<close>

definition switchMode :: "mode \<Rightarrow> int \<Rightarrow> controller \<Rightarrow> controller" where
  "switchMode newMode now c =
    (let c1 = (case debounceTimer c of None \<Rightarrow> c | Some i \<Rightarrow> clearTimeout i c);
         c2 = updateHeader newMode c1;
         c3 = (if newMode = search
               then snd (setTimeout FocusSearchInput 100 now (c2\<lparr>searchBarShown := True\<rparr>))
               else c2\<lparr>searchBarShown := False\<rparr>)
     in if newMode = search then c3\<lparr>pb_content := Info\<rparr>
        else (let (i, c4) = setTimeout (DebouncedRun newMode) 500 now c3
              in c4\<lparr>debounceTimer := Some i, pb_content := Loading (lit ''Switching mode...'')\<rparr>))"

text \<open>
  \<open>showError(message, showRetry, autoRetryMs)\<close> at the time \<open>now\<close>, on the controller:
  the error box is written, and for \<open>autoRetryMs > 0\<close> the countdown interval is set, with
  the end time \<open>now + autoRetryMs\<close>.
\<close>

definition showError_at :: "show_error \<Rightarrow> int \<Rightarrow> controller \<Rightarrow> controller" where
  "showError_at call now c =
    (let c1 = c\<lparr>pb_content := showError call\<rparr>
     in case call of ShowError message showRetry autoRetryMs \<Rightarrow>
          (case autoRetryMs of
             None \<Rightarrow> c1
           | Some ms \<Rightarrow>
               if ms > 0
               then (let (i, c2) = setInterval (CountdownTick (now + ms)) 100 now c1
                     in c2\<lparr>countdownInterval := Some i\<rparr>)
               else c1))"

text \<open>\<open>closeDrawer()\<close>: the run in flight is aborted, both timers are cleared.\<close>

definition closeDrawer :: "controller \<Rightarrow> controller" where
  "closeDrawer c =
    (let c1 = (case abortController c of
                 None \<Rightarrow> c
               | Some a \<Rightarrow> c\<lparr>abortController := Some True\<rparr>);
         c2 = (case debounceTimer c1 of None \<Rightarrow> c1 | Some i \<Rightarrow> clearTimeout i c1);
         c3 = (case countdownInterval c2 of None \<Rightarrow> c2 | Some i \<Rightarrow> clearTimeout i c2)
     in c3)"

text \<open>
  The tick of a countdown interval at which it calls \<open>runBriefrr\<close>: the first of its
  ticks (\<open>first\<close>, \<open>first + 100\<close>, ...) at which \<open>endTime - Date.now() <= 0\<close>.
\<close>

definition countdown_call_time :: "int \<Rightarrow> int \<Rightarrow> int" where
  "countdown_call_time first endTime =
    (if endTime \<le> first then first else first + 100 * ceil_div (endTime - first) 100)"

text \<open>
  The calls of \<open>runBriefrr\<close> that the pending timers issue up to the time \<open>t\<close>, each
  timer taken on its own: the mode of a debounced run that is due, and the current mode
  for a countdown that has reached its end.
\<close>

fun calls_due :: "int \<Rightarrow> mode \<Rightarrow> (nat \<times> int \<times> callback) list \<Rightarrow> mode list" where
  "calls_due t cur [] = []"
| "calls_due t cur ((i, due, DebouncedRun m) # ts) =
     (if due \<le> t then m # calls_due t cur ts else calls_due t cur ts)"
| "calls_due t cur ((i, first, CountdownTick endTime) # ts) =
     (if countdown_call_time first endTime \<le> t then cur # calls_due t cur ts
      else calls_due t cur ts)"
| "calls_due t cur ((i, due, FocusSearchInput) # ts) = calls_due t cur ts"

definition run_calls_due :: "int \<Rightarrow> controller \<Rightarrow> mode list" where
  "run_calls_due t c = calls_due t (currentMode c) (timers c)"

text \<open>
  Time passes up to \<open>t\<close> with no call of \<open>runBriefrr\<close> due: the focus timeouts that are
  due fire and are gone; a countdown's tick before its end only rewrites the seconds
  shown.
\<close>

definition elapse :: "int \<Rightarrow> controller \<Rightarrow> controller" where
  "elapse t c =
    c\<lparr>timers := filter (\<lambda>entry. \<not> (snd (snd entry) = FocusSearchInput \<and> fst (snd entry) \<le> t))
                   (timers c)\<rparr>"

text \<open>
  A sequence of mode switches, each at its time, as far as no timer issues a call of
  \<open>runBriefrr\<close> before one of the switches; \<open>None\<close> when one does.
\<close>

fun switchModes :: "(mode \<times> int) list \<Rightarrow> controller \<Rightarrow> controller option" where
  "switchModes [] c = Some c"
| "switchModes ((m, t) # toggles) c =
     (if run_calls_due t c \<noteq> [] then None
      else switchModes toggles (switchMode m t (elapse t c)))"




text \<open>A stream is live: a run is in flight and its abort signal has not fired.\<close>

definition stream_live :: "controller \<Rightarrow> bool" where
  "stream_live c = (isStreaming c \<and> abortController c = Some False)"

text \<open>
  What the controller keeps true of the timers: ids are at most the number of timers
  created, and the pending timer that \<open>debounceTimer\<close> refers to, if any, is a debounced
  run, the only one pending.
\<close>

definition timers_ok :: "controller \<Rightarrow> bool" where
  "timers_ok c =
   ((case debounceTimer c of None \<Rightarrow> True | Some i \<Rightarrow> i \<le> timersCreated c) \<and>
    list_all (\<lambda>entry. fst entry \<le> timersCreated c
        \<and> (case snd (snd entry) of
             DebouncedRun m \<Rightarrow> debounceTimer c = Some (fst entry)
           | _ \<Rightarrow> debounceTimer c \<noteq> Some (fst entry)))
      (timers c))"

text \<open>
  A controller in the middle of a stream: the run of brief mode has shown its first chunk,
  no timer is pending.
\<close>

definition streaming_controller :: controller where
  "streaming_controller =
    \<lparr>currentMode = highlights, isStreaming = True, abortController = Some False,
     debounceTimer = None, countdownInterval = None, timers = [], timersCreated = 0,
     searchBarShown = False, pb_content = Markdown (lit ''Hel'') True\<rparr>"


text \<open>
  The two conditions of the gate, on the stored values: the backoff window is open while the
  clock is before the last request's timestamp plus the stored backoff delay; the spacing
  window is open while less than 4000 ms have passed since the last request's timestamp.
\<close>

definition backoff_window_open :: "storage \<Rightarrow> int \<Rightarrow> bool" where
  "backoff_window_open s now =
    (case retryBackoff s of None \<Rightarrow> False
     | Some d \<Rightarrow> now < to_number (lastRequestTime s) + d)"

definition spacing_window_open :: "storage \<Rightarrow> int \<Rightarrow> bool" where
  "spacing_window_open s now =
    (case lastRequestTime s of None \<Rightarrow> False | Some t \<Rightarrow> now - t < 4000)"

section \<open>Properties of the rate limiter\<close>

lemma recordRateLimitError_first:
  "retryBackoff s = None \<Longrightarrow> recordRateLimitError s = (60000, s\<lparr>retryBackoff := Some 60000\<rparr>)"
  by (simp add: recordRateLimitError_def getRetryBackoff_def setRetryBackoff_def
      INITIAL_BACKOFF_def)

lemma recordRateLimitError_next:
  "0 < d \<Longrightarrow> recordRateLimitError (s\<lparr>retryBackoff := Some d\<rparr>) =
     (min (d * 2) 300000, s\<lparr>retryBackoff := Some (min (d * 2) 300000)\<rparr>)"
  by (simp add: recordRateLimitError_def getRetryBackoff_def setRetryBackoff_def
      MAX_BACKOFF_def Let_def)

lemma recordRateLimitError_times_Suc:
  assumes "retryBackoff s = None"
  shows "recordRateLimitError_times (Suc n) (r, s) =
    (min (60000 * 2 ^ n) 300000, s\<lparr>retryBackoff := Some (min (60000 * 2 ^ n) 300000)\<rparr>)"
proof (induction n)
  case 0
  show ?case using recordRateLimitError_first [OF assms] by simp
next
  case (Suc n)
  have pos: "(0::int) < min (60000 * 2 ^ n) 300000" by simp
  have step: "min (min (60000 * 2 ^ n) 300000 * 2) 300000 = min (60000 * 2 ^ Suc n) (300000::int)"
    by (simp add: min_def)
  have "recordRateLimitError_times (Suc (Suc n)) (r, s) =
      recordRateLimitError (snd (recordRateLimitError_times (Suc n) (r, s)))"
    by simp
  also have "\<dots> = recordRateLimitError (s\<lparr>retryBackoff := Some (min (60000 * 2 ^ n) 300000)\<rparr>)"
    by (simp only: Suc.IH snd_conv)
  also have "\<dots> = (min (60000 * 2 ^ Suc n) 300000,
      s\<lparr>retryBackoff := Some (min (60000 * 2 ^ Suc n) 300000)\<rparr>)"
    unfolding recordRateLimitError_next [OF pos] step by simp
  finally show ?case .
qed

text \<open>
  C1. Starting from a state with no stored backoff delay, after \<open>N \<ge> 1\<close> consecutive calls
  of \<open>recordRateLimitError\<close> (each on the state the previous one left, nothing else
  touching the backoff in between) the value returned by the \<open>N\<close>-th call and the stored
  backoff delay are both \<open>min (60000 * 2^(N-1)) 300000\<close> milliseconds.
\<close>

theorem recordRateLimitError_sequence:
  assumes "1 \<le> N" and "retryBackoff s = None"
  shows "fst (recordRateLimitError_times N (r, s)) = min (60000 * 2 ^ (N - 1)) 300000
       \<and> retryBackoff (snd (recordRateLimitError_times N (r, s)))
           = Some (min (60000 * 2 ^ (N - 1)) 300000)"
proof -
  from assms(1) obtain n where N: "N = Suc n" by (cases N) auto
  show ?thesis
    unfolding N recordRateLimitError_times_Suc [OF assms(2)] by simp
qed

theorem recordRateLimitError_sequence_witness:
  "fst (recordRateLimitError_times 4
      (0, \<lparr>geminiApiKey = None, lastRequestTime = Some 1000, retryBackoff = None\<rparr>)) = 300000
   \<and> retryBackoff (snd (recordRateLimitError_times 4
      (0, \<lparr>geminiApiKey = None, lastRequestTime = Some 1000, retryBackoff = None\<rparr>))) = Some 300000"
  using recordRateLimitError_sequence [of 4
      "\<lparr>geminiApiKey = None, lastRequestTime = Some 1000, retryBackoff = None\<rparr>" 0]
  by simp

text \<open>The rate limiter keeps its states valid.\<close>

lemma valid_state_recordRequest:
  "valid_state s \<Longrightarrow> 0 < now \<Longrightarrow> valid_state (recordRequest s now)"
  by (simp add: valid_state_def recordRequest_def setLastRequestTime_def)

lemma valid_state_recordSuccess:
  "valid_state s \<Longrightarrow> valid_state (recordSuccess s)"
  by (simp add: valid_state_def recordSuccess_def clearRetryBackoff_def)

lemma valid_state_recordRateLimitError:
  "valid_state s \<Longrightarrow> valid_state (snd (recordRateLimitError s))"
  by (auto simp add: valid_state_def recordRateLimitError_def getRetryBackoff_def
      setRetryBackoff_def INITIAL_BACKOFF_def MAX_BACKOFF_def Let_def split: option.splits)

lemma valid_state_canMakeRequest:
  "valid_state s \<Longrightarrow> valid_state (snd (canMakeRequest s now))"
  by (auto simp add: valid_state_def canMakeRequest_def clearRetryBackoff_def Let_def
      split: option.splits)

lemma canMakeRequest_backoff_open:
  assumes "valid_state s" and "backoff_window_open s now"
  shows "canMakeRequest s now =
    (Denied (to_number (lastRequestTime s) + to_number (retryBackoff s) - now) backoff, s)"
  using assms
  by (auto simp add: valid_state_def backoff_window_open_def canMakeRequest_def
      getRetryBackoff_def getLastRequestTime_def to_number_def Let_def split: option.splits)

lemma canMakeRequest_spacing_open:
  assumes "valid_state s" and "\<not> backoff_window_open s now" and "spacing_window_open s now"
  shows "canMakeRequest s now =
    (Denied (4000 - (now - to_number (lastRequestTime s))) rate_limit, s)"
  using assms
  by (auto simp add: valid_state_def backoff_window_open_def spacing_window_open_def
      canMakeRequest_def getRetryBackoff_def getLastRequestTime_def to_number_def
      clearRetryBackoff_def MIN_REQUEST_DELAY_def Let_def split: option.splits)

lemma canMakeRequest_allowed:
  assumes "valid_state s" and "\<not> backoff_window_open s now" and "\<not> spacing_window_open s now"
  shows "canMakeRequest s now = (Allowed, s\<lparr>retryBackoff := None\<rparr>)"
  using assms
  by (auto simp add: valid_state_def backoff_window_open_def spacing_window_open_def
      canMakeRequest_def getRetryBackoff_def getLastRequestTime_def to_number_def
      clearRetryBackoff_def MIN_REQUEST_DELAY_def Let_def split: option.splits)

lemma backoff_expired_no_spacing:
  assumes "valid_state s" and "retryBackoff s = Some d" and "lastRequestTime s = Some t"
    and "t + d \<le> now"
  shows "\<not> backoff_window_open s now \<and> \<not> spacing_window_open s now"
  using assms
  by (auto simp add: valid_state_def backoff_window_open_def spacing_window_open_def
      to_number_def)

text \<open>
  C2. For every valid stored state and every clock value (the storage reads resolving):
  while the backoff window is open (a backoff delay is stored and
  \<open>now < lastRequestTime + retryBackoff\<close>) the answer is Denied, reason backoff, with
  \<open>remainingMs = lastRequestTime + retryBackoff - now\<close>; otherwise, while the spacing
  window is open (a timestamp is stored and \<open>now - lastRequestTime < 4000\<close>) it is Denied,
  reason rate_limit (the spacing reason), with
  \<open>remainingMs = 4000 - (now - lastRequestTime)\<close>; otherwise it is Allowed and the state
  left behind has no backoff delay, so a stored and expired one has been cleared. In
  particular a call at or after the end of a backoff window is Allowed and clears the
  backoff. A denial leaves the state as it was. (A timestamp that is not stored counts as 0
  in the sum, as \<open>null\<close> does.)
\<close>

theorem canMakeRequest_gate:
  assumes "valid_state s"
  shows "canMakeRequest s now =
      (if backoff_window_open s now
       then (Denied (to_number (lastRequestTime s) + to_number (retryBackoff s) - now) backoff, s)
       else if spacing_window_open s now
       then (Denied (4000 - (now - to_number (lastRequestTime s))) rate_limit, s)
       else (Allowed, s\<lparr>retryBackoff := None\<rparr>))
    \<and> (\<forall>d t. retryBackoff s = Some d \<and> lastRequestTime s = Some t \<and> t + d \<le> now
          \<longrightarrow> canMakeRequest s now = (Allowed, s\<lparr>retryBackoff := None\<rparr>))"
proof (intro conjI allI impI)
  show "canMakeRequest s now =
      (if backoff_window_open s now
       then (Denied (to_number (lastRequestTime s) + to_number (retryBackoff s) - now) backoff, s)
       else if spacing_window_open s now
       then (Denied (4000 - (now - to_number (lastRequestTime s))) rate_limit, s)
       else (Allowed, s\<lparr>retryBackoff := None\<rparr>))"
    using canMakeRequest_backoff_open [OF assms] canMakeRequest_spacing_open [OF assms]
      canMakeRequest_allowed [OF assms]
    by simp
next
  fix d t
  assume h: "retryBackoff s = Some d \<and> lastRequestTime s = Some t \<and> t + d \<le> now"
  then have "\<not> backoff_window_open s now \<and> \<not> spacing_window_open s now"
    using backoff_expired_no_spacing [OF assms] by blast
  then show "canMakeRequest s now = (Allowed, s\<lparr>retryBackoff := None\<rparr>)"
    using canMakeRequest_allowed [OF assms] by blast
qed

theorem canMakeRequest_gate_witness:
  "valid_state \<lparr>geminiApiKey = None, lastRequestTime = Some 1000000, retryBackoff = Some 60000\<rparr>
   \<and> canMakeRequest
        \<lparr>geminiApiKey = None, lastRequestTime = Some 1000000, retryBackoff = Some 60000\<rparr> 1059999
      = (Denied 1 backoff,
         \<lparr>geminiApiKey = None, lastRequestTime = Some 1000000, retryBackoff = Some 60000\<rparr>)
   \<and> canMakeRequest
        \<lparr>geminiApiKey = None, lastRequestTime = Some 1000000, retryBackoff = Some 60000\<rparr> 1060000
      = (Allowed, \<lparr>geminiApiKey = None, lastRequestTime = Some 1000000, retryBackoff = None\<rparr>)
   \<and> canMakeRequest
        \<lparr>geminiApiKey = None, lastRequestTime = Some 1000000, retryBackoff = None\<rparr> 1003000
      = (Denied 1000 rate_limit,
         \<lparr>geminiApiKey = None, lastRequestTime = Some 1000000, retryBackoff = None\<rparr>)"
proof -
  have v1: "valid_state
      \<lparr>geminiApiKey = None, lastRequestTime = Some 1000000, retryBackoff = Some 60000\<rparr>"
    by (simp add: valid_state_def)
  have v2: "valid_state
      \<lparr>geminiApiKey = None, lastRequestTime = Some 1000000, retryBackoff = None\<rparr>"
    by (simp add: valid_state_def)
  show ?thesis
    using v1 canMakeRequest_gate [OF v1, of 1059999] canMakeRequest_gate [OF v1, of 1060000]
      canMakeRequest_gate [OF v2, of 1003000]
    by (simp add: backoff_window_open_def spacing_window_open_def to_number_def)
qed

section \<open>Properties of the string functions\<close>

lemma push_front_nonempty [simp]: "push_front c ps \<noteq> []"
  by (cases ps) auto

lemma split_on_nonempty: "split_on d s \<noteq> []"
  by (induction s) auto

lemma split_on_notin: "d \<notin> set a \<Longrightarrow> split_on d a = [a]"
  by (induction a) auto

lemma split_on_append: "d \<notin> set a \<Longrightarrow> split_on d (a @ d # b) = a # split_on d b"
  by (induction a) auto

lemma join_split_on: "join [d] (split_on d s) = s"
proof (induction s)
  case Nil
  show ?case by simp
next
  case (Cons c cs)
  obtain p ps where sp: "split_on d cs = p # ps"
    using split_on_nonempty [of d cs] by (cases "split_on d cs") auto
  show ?case using Cons sp by (cases ps) auto
qed

lemma digit_char: "d < 10 \<Longrightarrow> is_digit (of_nat (48 + d)) \<and> digit_val (of_nat (48 + d)) = d"
proof -
  assume d: "d < 10"
  have u: "unat (of_nat (48 + d) :: jschar) = 48 + d"
    using d by (simp only: unat_of_nat) simp
  have a: "unat (48 :: jschar) = 48" and b: "unat (57 :: jschar) = 57" by simp_all
  show ?thesis
    unfolding is_digit_def digit_val_def word_le_nat_alt u a b using d by simp
qed

lemma digits_all: "\<forall>c \<in> set (digits n). is_digit c"
proof (induction n rule: digits.induct)
  case (1 n)
  show ?case
  proof (cases "n < 10")
    case True
    then show ?thesis using digit_char [of n] by (simp add: digits.simps)
  next
    case False
    then show ?thesis using 1 digit_char [of "n mod 10"]
      by (subst digits.simps) auto
  qed
qed

lemma digits_val_append: "digits_val (a @ [c]) = 10 * digits_val a + digit_val c"
  by (simp add: digits_val_def)

lemma digits_val_digits: "digits_val (digits n) = n"
proof (induction n rule: digits.induct)
  case (1 n)
  show ?case
  proof (cases "n < 10")
    case True
    then show ?thesis using digit_char [of n] by (simp add: digits.simps digits_val_def)
  next
    case False
    then show ?thesis using 1 digit_char [of "n mod 10"]
      by (subst digits.simps) (simp add: digits_val_append)
  qed
qed

lemma digits_nonempty: "digits n \<noteq> []"
  by (subst digits.simps) simp

lemma is_digit_plain:
  assumes "is_digit c"
  shows "\<not> js_whitespace c \<and> c \<noteq> 43 \<and> c \<noteq> 45 \<and> c \<noteq> 58"
proof -
  have "48 \<le> unat c \<and> unat c \<le> 57"
    using assms by (simp add: is_digit_def word_le_nat_alt)
  then show ?thesis
    by (auto simp add: js_whitespace_def word_le_nat_alt)
qed

lemma takeWhile_all: "\<forall>x \<in> set xs. P x \<Longrightarrow> takeWhile P xs = xs"
  by simp

lemma parseInt_digits: "parseInt (digits n) = Some (int n)"
proof -
  obtain c cs where d: "digits n = c # cs"
    using digits_nonempty [of n] by (cases "digits n") auto
  have c: "is_digit c" using digits_all [of n] d by simp
  have rest: "\<forall>x \<in> set cs. is_digit x"
    using digits_all [of n] d by simp
  have "parseInt (c # cs) = Some (int (digits_val (c # cs)))"
    using is_digit_plain [OF c] c rest by (simp add: parseInt_def Let_def takeWhile_all)
  then show ?thesis by (simp add: d [symmetric] digits_val_digits)
qed

lemma colon_notin_digits: "58 \<notin> set (digits n)"
  using digits_all [of n] is_digit_plain by blast

section \<open>Properties of the controller's error parsing\<close>

text \<open>
  C10. For every delay \<open>ms \<ge> 0\<close> and every message, colons in the message included, the
  controller's parsing of the relay's throttle error \<open>RATE_LIMITED:<ms>:<message>\<close> calls
  \<open>showError\<close> with exactly that message, no retry button and \<open>cooldownMs = ms\<close>.
\<close>

theorem rate_limited_roundtrip:
  assumes "0 \<le> ms"
  shows "runBriefrr_catch (rate_limited ms message) = ShowError message False (Some ms)"
proof -
  let ?e = "rate_limited ms message"
  have shape: "?e = lit ''RATE_LIMITED'' @ 58 # (digits (nat ms) @ 58 # message)"
    using assms by (simp add: rate_limited_def num_str_def lit_def)
  have no1: "(58::jschar) \<notin> set (lit ''RATE_LIMITED'')"
    by (simp add: lit_def)
  have parts: "split_on 58 ?e = lit ''RATE_LIMITED'' # digits (nat ms) # split_on 58 message"
    unfolding shape
    by (simp only: split_on_append [OF no1] split_on_append [OF colon_notin_digits])
  have len: "length (split_on 58 ?e) \<ge> 3"
    unfolding parts using split_on_nonempty [of 58 message]
    by (cases "split_on 58 message") auto
  have key: "?e \<noteq> lit ''INVALID_KEY''"
    unfolding shape by (simp add: lit_def)
  have pre: "startsWith ?e (lit ''RATE_LIMITED:'')"
    by (simp add: rate_limited_def startsWith_def)
  have num: "parseInt (split_on 58 ?e ! 1) = Some ms"
    unfolding parts using assms by (simp add: parseInt_digits)
  have msg: "join (lit '':'') (drop 2 (split_on 58 ?e)) = message"
    unfolding parts using join_split_on [of 58 message] by (simp add: lit_def)
  show ?thesis
    unfolding runBriefrr_catch_def Let_def using key pre len num msg by simp
qed

theorem rate_limited_roundtrip_witness:
  "runBriefrr_catch (rate_limited 60000 (lit ''Wait: 1 minute.''))
     = ShowError (lit ''Wait: 1 minute.'') False (Some 60000)"
  using rate_limited_roundtrip [of 60000 "lit ''Wait: 1 minute.''"] by simp

section \<open>Properties of the relay's decode loop\<close>

lemma decode_append:
  "decode step d (a @ b) =
     (let (d1, t1) = decode step d a; (d2, t2) = decode step d1 b in (d2, t1 @ t2))"
  by (induction a arbitrary: d) (auto simp add: Let_def split: prod.splits)

lemma last_split_on_no_sep: "d \<notin> set (last (split_on d x))"
proof (induction x)
  case Nil show ?case by simp
next
  case (Cons c cs)
  obtain p ps where sp: "split_on d cs = p # ps"
    using split_on_nonempty [of d cs] by (cases "split_on d cs") auto
  show ?case using Cons sp by (cases ps) auto
qed

lemma split_on_carry:
  "split_on d (x @ y) = butlast (split_on d x) @ split_on d (last (split_on d x) @ y)"
proof (induction x)
  case Nil show ?case by simp
next
  case (Cons c cs)
  obtain p ps where sp: "split_on d cs = p # ps"
    using split_on_nonempty [of d cs] by (cases "split_on d cs") auto
  obtain q qs where sq: "split_on d (last (split_on d cs) @ y) = q # qs"
    using split_on_nonempty [of d "last (split_on d cs) @ y"]
    by (cases "split_on d (last (split_on d cs) @ y)") auto
  show ?case
  proof (cases "c = d")
    case True
    then show ?thesis using Cons sp by simp
  next
    case False
    show ?thesis
    proof (cases ps)
      case Nil
      then show ?thesis using Cons sp False sq by simp
    next
      case (Cons r rs)
      then show ?thesis using Cons.IH sp False by simp
    qed
  qed
qed

lemma process_lines_append:
  "process_lines ft (l1 @ l2) =
     (let (y1, f1) = process_lines ft l1
      in if f1 then (y1, True)
         else (let (y2, f2) = process_lines ft l2 in (y1 @ y2, f2)))"
  by (induction l1) (auto simp add: Let_def split: prod.splits option.splits)

lemma read_loop_whole:
  assumes "10 \<notin> set buffer"
  shows "read_loop step ft d buffer reads e =
     (let (ys, fin) = process_lines ft
            (butlast (split_on 10 (buffer @ snd (decode step d (concat reads)))))
      in (ys, if fin then Returned else end_outcome e))"
  using assms
proof (induction reads arbitrary: d buffer)
  case Nil
  then show ?case by (simp add: split_on_notin end_outcome_def)
next
  case (Cons v rest)
  obtain d' tx where dv: "decode step d v = (d', tx)" by (cases "decode step d v")
  obtain d'' tx' where dr: "decode step d' (concat rest) = (d'', tx')"
    by (cases "decode step d' (concat rest)")
  let ?lines = "split_on 10 (buffer @ tx)"
  have nb: "10 \<notin> set (last ?lines)" by (rule last_split_on_no_sep)
  have all: "snd (decode step d (concat (v # rest))) = tx @ tx'"
    by (simp add: decode_append dv dr)
  have carry: "split_on 10 (buffer @ tx @ tx') =
      butlast ?lines @ split_on 10 (last ?lines @ tx')"
    using split_on_carry [of 10 "buffer @ tx" tx'] by simp
  have bl: "butlast (butlast ?lines @ split_on 10 (last ?lines @ tx')) =
      butlast ?lines @ butlast (split_on 10 (last ?lines @ tx'))"
    using split_on_nonempty [of 10 "last ?lines @ tx'"] by (simp add: butlast_append)
  have ih: "read_loop step ft d' (last ?lines) rest e =
     (let (ys, fin) = process_lines ft (butlast (split_on 10 (last ?lines @ tx')))
      in (ys, if fin then Returned else end_outcome e))"
    using Cons.IH [OF nb, of d'] by (simp add: dr)
  show ?case
    unfolding all carry bl process_lines_append
    by (simp add: dv ih Let_def split: prod.splits)
qed

lemma process_lines_texts:
  "fst (process_lines ft ls) =
    List.map_filter ft
      (takeWhile (\<lambda>data. data \<noteq> lit ''[DONE]'')
        (map (\<lambda>line. trim (drop 6 line)) (filter (\<lambda>line. startsWith line (lit ''data: '')) ls)))"
  by (induction ls) (auto simp add: Let_def List.map_filter_simps split: prod.splits option.splits)


lemma read_loop_texts:
  "fst (read_loop step ft d0 [] reads e) = response_texts step d0 ft (concat reads)"
  by (simp add: read_loop_whole response_texts_def process_lines_texts [symmetric]
      split: prod.splits)

lemma process_lines_skip:
  assumes "startsWith line (lit ''data: '')" and "trim (drop 6 line) \<noteq> lit ''[DONE]''"
    and "ft (trim (drop 6 line)) = None"
  shows "process_lines ft (line # lines) = process_lines ft lines"
  using assms by (simp add: Let_def)

text \<open>
  C4. For every upstream byte stream and every way the reads cut it into pieces, a cut
  inside a multi-byte character or inside a frame included, the decode loop yields the same
  texts and ends the same way as on the whole stream arriving in one read (for any decoder
  that, as \<open>TextDecoder\<close> in streaming mode, consumes bytes one at a time and keeps its
  state between reads). A frame with the data marker whose payload has no text because it
  does not parse is skipped: the loop goes on with the lines after it.
\<close>

theorem read_loop_partition:
  "read_loop step frame_text d0 [] reads e = read_loop step frame_text d0 [] [concat reads] e
   \<and> (\<forall>line lines.
        startsWith line (lit ''data: '') \<and> trim (drop 6 line) \<noteq> lit ''[DONE]''
          \<and> frame_text (trim (drop 6 line)) = None
        \<longrightarrow> process_lines frame_text (line # lines) = process_lines frame_text lines)"
proof (intro conjI allI impI)
  have "read_loop step frame_text d0 [] [concat reads] e =
     (let (ys, fin) = process_lines frame_text
            (butlast (split_on 10 ([] @ snd (decode step d0 (concat [concat reads])))))
      in (ys, if fin then Returned else end_outcome e))"
    by (rule read_loop_whole) simp
  moreover have "read_loop step frame_text d0 [] reads e =
     (let (ys, fin) = process_lines frame_text
            (butlast (split_on 10 ([] @ snd (decode step d0 (concat reads)))))
      in (ys, if fin then Returned else end_outcome e))"
    by (rule read_loop_whole) simp
  ultimately show "read_loop step frame_text d0 [] reads e =
      read_loop step frame_text d0 [] [concat reads] e"
    by simp
next
  fix line lines
  assume "startsWith line (lit ''data: '') \<and> trim (drop 6 line) \<noteq> lit ''[DONE]''
          \<and> frame_text (trim (drop 6 line)) = None"
  then show "process_lines frame_text (line # lines) = process_lines frame_text lines"
    using process_lines_skip by blast
qed

lemma read_loop_example: "read_loop utf8_step (\<lambda>data. if data = lit ''{bad'' then None else Some data) utf8_new []
      [ascii ''data: caf'' @ [195], [169, 10] @ ascii ''data: {bad'' @ [10] @ ascii ''da'',
       ascii ''ta: ok'' @ [10]] EndOfStream
    = ([lit ''caf'' @ [233], lit ''ok''], Returned)"
  by (simp add: ascii_def utf8_step_def utf8_handler_def utf8_lead_def utf8_new_def utf16_def
      lit_def Let_def startsWith_def trim_def js_whitespace_def end_outcome_def)

theorem read_loop_partition_witness:
  "startsWith (lit ''data: {bad'') (lit ''data: '')
   \<and> trim (drop 6 (lit ''data: {bad'')) \<noteq> lit ''[DONE]''
   \<and> (\<lambda>data. if data = lit ''{bad'' then None else Some data) (trim (drop 6 (lit ''data: {bad''))) = None
   \<and> process_lines (\<lambda>data. if data = lit ''{bad'' then None else Some data)
        [lit ''data: {bad'', lit ''data: ok'']
      = process_lines (\<lambda>data. if data = lit ''{bad'' then None else Some data) [lit ''data: ok'']
   \<and> read_loop utf8_step (\<lambda>data. if data = lit ''{bad'' then None else Some data) utf8_new []
        [ascii ''data: caf'' @ [195], [169, 10] @ ascii ''data: {bad'' @ [10] @ ascii ''da'',
         ascii ''ta: ok'' @ [10]] EndOfStream
      = read_loop utf8_step (\<lambda>data. if data = lit ''{bad'' then None else Some data) utf8_new []
        [concat [ascii ''data: caf'' @ [195], [169, 10] @ ascii ''data: {bad'' @ [10] @ ascii ''da'',
         ascii ''ta: ok'' @ [10]]] EndOfStream
   \<and> read_loop utf8_step (\<lambda>data. if data = lit ''{bad'' then None else Some data) utf8_new []
        [ascii ''data: caf'' @ [195], [169, 10] @ ascii ''data: {bad'' @ [10] @ ascii ''da'',
         ascii ''ta: ok'' @ [10]] EndOfStream
      = ([lit ''caf'' @ [233], lit ''ok''], Returned)"
proof -
  have a: "startsWith (lit ''data: {bad'') (lit ''data: '')
   \<and> trim (drop 6 (lit ''data: {bad'')) \<noteq> lit ''[DONE]''
   \<and> (\<lambda>data. if data = lit ''{bad'' then None else Some data) (trim (drop 6 (lit ''data: {bad''))) = None"
    by (simp add: lit_def startsWith_def trim_def js_whitespace_def)
  note p = read_loop_partition [of utf8_step "\<lambda>data. if data = lit ''{bad'' then None else Some data"
      utf8_new "[ascii ''data: caf'' @ [195], [169, 10] @ ascii ''data: {bad'' @ [10] @ ascii ''da'',
         ascii ''ta: ok'' @ [10]]" EndOfStream]
  from p have p1: "read_loop utf8_step (\<lambda>data. if data = lit ''{bad'' then None else Some data) utf8_new []
        [ascii ''data: caf'' @ [195], [169, 10] @ ascii ''data: {bad'' @ [10] @ ascii ''da'',
         ascii ''ta: ok'' @ [10]] EndOfStream
      = read_loop utf8_step (\<lambda>data. if data = lit ''{bad'' then None else Some data) utf8_new []
        [concat [ascii ''data: caf'' @ [195], [169, 10] @ ascii ''data: {bad'' @ [10] @ ascii ''da'',
         ascii ''ta: ok'' @ [10]]] EndOfStream" by (rule conjunct1)
  from p a have p2: "process_lines (\<lambda>data. if data = lit ''{bad'' then None else Some data)
        [lit ''data: {bad'', lit ''data: ok'']
      = process_lines (\<lambda>data. if data = lit ''{bad'' then None else Some data) [lit ''data: ok'']"
    by blast
  show ?thesis using a p1 p2 read_loop_example by blast
qed


section \<open>Properties of the relayed stream\<close>

lemma port_listener_connected:
  "port_listener None chunks out =
     map Chunk chunks @ [case out of Returned \<Rightarrow> Done | Threw m \<Rightarrow> Error m]"
  by (induction chunks) auto

lemma port_listener_disconnected:
  "port_listener (Some k) chunks out = take k (port_listener None chunks out)"
proof (induction chunks arbitrary: k)
  case Nil
  then show ?case by (cases k) auto
next
  case (Cons c cs)
  then show ?case by (cases k) auto
qed

lemma chunk_texts_stream: "chunk_texts (map Chunk chunks @ [t]) = chunks @ chunk_texts [t]"
  by (induction chunks) auto

lemma terminal_count:
  "is_terminal t \<Longrightarrow> length (filter is_terminal (map Chunk chunks @ [t])) = 1"
  by (induction chunks) (auto simp add: is_terminal_def)

lemma chunk_texts_terminal: "is_terminal t \<Longrightarrow> chunk_texts [t] = []"
  by (cases t) (auto simp add: is_terminal_def)

lemma streamGeminiResponse_texts:
  "fst (fst (streamGeminiResponse step d0 ft em s now now' upstream)) =
     served_texts step d0 ft s now upstream"
  by (auto simp add: streamGeminiResponse_def served_texts_def read_loop_texts Let_def
      split: prod.splits gate.splits fetch_result.splits)

text \<open>
  C3. On a port that stays connected, the messages the relay posts for one request are
  zero or more \<open>Chunk\<close> messages followed by exactly one terminal message, a \<open>Done\<close> or
  an \<open>Error\<close>; the chunk texts are, in order, the texts of the server's decoded response
  (none when the server was not reached or did not answer 2xx), so their concatenation is
  the response's text with nothing reordered, repeated or lost. The upstream body is a
  finite sequence of reads that ends (with \<open>done\<close> or a failed read).
\<close>

theorem relay_stream:
  "\<exists>t. relay step d0 frame_text error_message None s now now' upstream
          = map Chunk (served_texts step d0 frame_text s now upstream) @ [t]
       \<and> is_terminal t
       \<and> length (filter is_terminal
            (relay step d0 frame_text error_message None s now now' upstream)) = 1
       \<and> concat (chunk_texts (relay step d0 frame_text error_message None s now now' upstream))
          = concat (served_texts step d0 frame_text s now upstream)"
proof -
  obtain chunks out s' fetched where
    g: "streamGeminiResponse step d0 frame_text error_message s now now' upstream
          = ((chunks, out), s', fetched)"
    by (metis prod.exhaust)
  have c: "chunks = served_texts step d0 frame_text s now upstream"
    using streamGeminiResponse_texts [of step d0 frame_text error_message s now now' upstream] g
    by simp
  let ?t = "case out of Returned \<Rightarrow> Done | Threw m \<Rightarrow> Error m"
  have r: "relay step d0 frame_text error_message None s now now' upstream = map Chunk chunks @ [?t]"
    by (simp add: relay_def g port_listener_connected)
  have t: "is_terminal ?t" by (cases out) (auto simp add: is_terminal_def)
  show ?thesis
    unfolding r c [symmetric]
    using t terminal_count [OF t, of chunks] chunk_texts_terminal [OF t]
    by (intro exI [of _ ?t]) (simp add: chunk_texts_stream)
qed

lemma relay_example:
  "relay utf8_step utf8_new (\<lambda>data. if data = [] then None else Some data) (\<lambda>body. None) None
     \<lparr>geminiApiKey = None, lastRequestTime = None, retryBackoff = None\<rparr> 1000000 1000001
     (Resolves \<lparr>status = 200, text_body = [],
        body = [ascii ''data: Hello'' @ [10] @ ascii ''data: wor'', ascii ''ld'' @ [10],
                ascii ''data: !'' @ [10, 10] @ ascii ''data: [DONE]'' @ [10]],
        body_end = EndOfStream\<rparr>)
   = [Chunk (lit ''Hello''), Chunk (lit ''world''), Chunk (lit ''!''), Done]"
  by (simp add: relay_def streamGeminiResponse_def canMakeRequest_def getLastRequestTime_def
      getRetryBackoff_def to_number_def ok_def recordRequest_def setLastRequestTime_def
      recordSuccess_def clearRetryBackoff_def ascii_def utf8_step_def utf8_handler_def
      utf8_lead_def utf8_new_def utf16_def lit_def Let_def startsWith_def trim_def
      js_whitespace_def end_outcome_def)

section \<open>Properties of the relay's error mapping\<close>

lemma streamGeminiResponse_not_ok:
  assumes "fst (canMakeRequest s now) = Allowed" and "\<not> ok res"
  shows "fst (streamGeminiResponse step d0 ft em s now now' (Resolves res)) =
    ([], Threw
      (if status res = 400 then lit ''INVALID_KEY''
       else if status res = 429
       then rate_limited
              (fst (recordRateLimitError (recordRequest (snd (canMakeRequest s now)) now')))
              (lit ''You've hit the API rate limit. Please wait ''
               @ formatTimeRemaining
                   (fst (recordRateLimitError (recordRequest (snd (canMakeRequest s now)) now')))
               @ lit '' and try again.'')
       else (case em (text_body res) of
               Some m \<Rightarrow> m
             | None \<Rightarrow> lit ''API error ('' @ num_str (status res) @ lit '')'')))"
  using assms
  by (auto simp add: streamGeminiResponse_def Let_def split: prod.splits gate.splits)

text \<open>A first 429: the relay reports the backoff of 60000 ms.\<close>

lemma throttled_example:
  "relay step d0 ft (\<lambda>body. None) None
     \<lparr>geminiApiKey = None, lastRequestTime = None, retryBackoff = None\<rparr> 1000000 1000001
     (Resolves \<lparr>status = 429, text_body = [], body = [], body_end = EndOfStream\<rparr>)
   = [Error (rate_limited 60000
        (lit ''You've hit the API rate limit. Please wait 1 minute and try again.''))]"
  by (simp add: relay_def streamGeminiResponse_def canMakeRequest_def getLastRequestTime_def
      getRetryBackoff_def to_number_def ok_def recordRequest_def setLastRequestTime_def
      recordRateLimitError_def setRetryBackoff_def INITIAL_BACKOFF_def formatTimeRemaining_def
      ceil_div_def num_str_def digits.simps lit_def Let_def)

text \<open>
  C6, at the status 403. The streaming call answers a 403 with the generic failure message
  (here the body has no message, so \<open>API error (403)\<close>), not with \<open>INVALID_KEY\<close>; the
  key validation maps the same status to \<open>INVALID_KEY\<close>.
\<close>

theorem streamGeminiResponse_status_403:
  "fst (streamGeminiResponse step d0 ft (\<lambda>body. None)
      \<lparr>geminiApiKey = None, lastRequestTime = None, retryBackoff = None\<rparr> 1000000 1000001
      (Resolves \<lparr>status = 403, text_body = [], body = [], body_end = EndOfStream\<rparr>))
    = ([], Threw (lit ''API error (403)''))
   \<and> validateApiKey_error 403 [] = lit ''INVALID_KEY''"
  by (simp add: streamGeminiResponse_def canMakeRequest_def getLastRequestTime_def
      getRetryBackoff_def to_number_def ok_def recordRequest_def setLastRequestTime_def
      validateApiKey_error_def num_str_def digits.simps lit_def Let_def)

section \<open>Properties of a run\<close>

lemma await_stream_chunks:
  assumes "port_open st" and "\<not> aborted st" and "settled st = None"
  shows "await_stream st (map (\<lambda>text. Message (Chunk text)) chunks @ rest) =
     await_stream
       (st\<lparr>accumulated := accumulated st @ concat chunks,
           shown := (if chunks = [] then shown st
                     else Markdown (accumulated st @ concat chunks) True)\<rparr>) rest"
  using assms
proof (induction chunks arbitrary: st)
  case Nil
  then show ?case by simp
next
  case (Cons c cs)
  let ?st = "st\<lparr>accumulated := accumulated st @ c, shown := Markdown (accumulated st @ c) True\<rparr>"
  have step: "port_step st (Message (Chunk c)) = ?st"
    using Cons.prems by (simp add: port_step_def)
  have "await_stream st (map (\<lambda>text. Message (Chunk text)) (c # cs) @ rest) =
      await_stream ?st (map (\<lambda>text. Message (Chunk text)) cs @ rest)"
    using Cons.prems by (simp add: step)
  also have "\<dots> = await_stream
       (?st\<lparr>accumulated := accumulated ?st @ concat cs,
           shown := (if cs = [] then shown ?st
                     else Markdown (accumulated ?st @ concat cs) True)\<rparr>) rest"
    using Cons.prems by (intro Cons.IH) simp_all
  finally show ?case by simp
qed

lemma connection_lost_catch:
  "runBriefrr_catch (lit ''Connection to extension lost. Please try again.'') =
     ShowError (lit ''The response was interrupted. Connection to extension lost. Please try again.'')
       True (Some 0)"
  by (simp add: runBriefrr_catch_def lit_def startsWith_def)

lemma stream_example:
  "stream_response loadingText
     [Message (Chunk (lit ''Hello'')), Message (Chunk (lit '' world'')), Message (Chunk (lit ''!'')),
      Message Done]
   = (StreamResolved, Markdown (lit ''Hello world!'') False)"
  by (simp add: stream_response_def port_step_def settle_def lit_def)

lemma throttled_countdown_example:
  "stream_response loadingText
     [Message (Error (rate_limited 60000
        (lit ''You've hit the API rate limit. Please wait 1 minute and try again.'')))]
   = (StreamRejected (rate_limited 60000
        (lit ''You've hit the API rate limit. Please wait 1 minute and try again.'')),
      ErrorBox (lit ''You've hit the API rate limit. Please wait 1 minute and try again.'')
       (Some 60000) False)"
  by (simp add: stream_response_def port_step_def settle_def showError_def runBriefrr_catch_def
      rate_limited_def num_str_def digits.simps lit_def startsWith_def parseInt_def
      js_whitespace_def is_digit_def digits_val_def digit_val_def Let_def)

text \<open>
  C8. While only chunks have arrived the run is suspended on its stream. When the port is
  then disconnected from the other side, with no abort: if no text has been accumulated
  the promise is rejected with the lost-connection error and the run shows the error box
  with its Retry button (a retryable error); if text has been accumulated the promise is
  resolved, the run goes on to its end as after \<open>done\<close>, and the content area keeps
  showing the accumulated text, with no error.
\<close>

theorem unexpected_disconnect:
  "stream_response loadingText (map (\<lambda>text. Message (Chunk text)) chunks)
     = (AwaitingStream, if chunks = [] then Loading loadingText else Markdown (concat chunks) True)
   \<and> stream_response loadingText (map (\<lambda>text. Message (Chunk text)) chunks @ [Disconnect])
     = (if concat chunks = []
        then (StreamRejected (lit ''Connection to extension lost. Please try again.''),
              ErrorBox
                (lit ''The response was interrupted. Connection to extension lost. Please try again.'')
                None True)
        else (StreamResolved, Markdown (concat chunks) True))"
proof
  let ?st0 = "\<lparr>accumulated = [], shown = Loading loadingText, aborted = False,
                   port_open = True, settled = None\<rparr>"
  have p: "await_stream ?st0 (map (\<lambda>text. Message (Chunk text)) chunks @ []) =
     await_stream
       (?st0\<lparr>accumulated := accumulated ?st0 @ concat chunks,
           shown := (if chunks = [] then shown ?st0
                     else Markdown (accumulated ?st0 @ concat chunks) True)\<rparr>) []"
    by (rule await_stream_chunks) simp_all
  show "stream_response loadingText (map (\<lambda>text. Message (Chunk text)) chunks)
     = (AwaitingStream, if chunks = [] then Loading loadingText else Markdown (concat chunks) True)"
    using p by (simp add: stream_response_def)
  have a: "await_stream ?st0 (map (\<lambda>text. Message (Chunk text)) chunks @ [Disconnect]) =
     await_stream
       (?st0\<lparr>accumulated := accumulated ?st0 @ concat chunks,
           shown := (if chunks = [] then shown ?st0
                     else Markdown (accumulated ?st0 @ concat chunks) True)\<rparr>) [Disconnect]"
    by (rule await_stream_chunks) simp_all
  show "stream_response loadingText (map (\<lambda>text. Message (Chunk text)) chunks @ [Disconnect])
     = (if concat chunks = []
        then (StreamRejected (lit ''Connection to extension lost. Please try again.''),
              ErrorBox
                (lit ''The response was interrupted. Connection to extension lost. Please try again.'')
                None True)
        else (StreamResolved, Markdown (concat chunks) True))"
  proof (cases "concat chunks = []")
    case True
    then show ?thesis
      unfolding stream_response_def a
      by (simp add: port_step_def settle_def connection_lost_catch showError_def)
  next
    case False
    then have "chunks \<noteq> []" by auto
    then show ?thesis
      unfolding stream_response_def a using False
      by (auto simp add: port_step_def settle_def)
  qed
qed





section \<open>Properties of mode switching\<close>
















lemma closeDrawer_cancels: "\<not> stream_live (closeDrawer c)"
  by (simp add: closeDrawer_def clearTimeout_def stream_live_def Let_def split: option.splits)



text \<open>The controller keeps its timers in order.\<close>

lemma timers_ok_showError_at:
  "timers_ok c \<Longrightarrow> timers_ok (showError_at call now c)"
  by (cases call)
     (auto simp add: timers_ok_def showError_at_def setInterval_def list_all_iff Let_def
        split: option.splits callback.splits)

lemma timers_ok_closeDrawer:
  "timers_ok c \<Longrightarrow> timers_ok (closeDrawer c)"
  by (auto simp add: timers_ok_def closeDrawer_def clearTimeout_def list_all_iff Let_def
        split: option.splits callback.splits)

text \<open>Switches that are not rapid: the run of the first is called before the second.\<close>

lemma slow_switches_example:
  "switchModes [(explain, 0), (highlights, 600)] streaming_controller = None"
  by (simp add: switchMode_def setTimeout_def updateHeader_def elapse_def run_calls_due_def
      streaming_controller_def Let_def)




end
